theory Spec2Isabelle
  imports Main "HOL-Library.Word" "HOL-Library.AList"
begin

section \<open>mlserver: the model registry and the worker bridge\<close>

text \<open>
  A shallow embedding of \<^verbatim>\<open>models.go\<close> and \<^verbatim>\<open>workers.go\<close>. Go values that live
  behind pointers (\<^verbatim>\<open>*Model\<close>, \<^verbatim>\<open>*exec.Cmd\<close>, channels) are kept in explicit stores;
  a pointer is an index into its store and \<open>None\<close> is \<^verbatim>\<open>nil\<close>. Every function takes
  the program state and returns the new one. What the Go libraries and the operating
  system answer (the JSON codec, ZeroMQ, the subprocesses, the temp-file name, the uuid)
  is a parameter, collected in the record \<open>env\<close>.
\<close>

subsection \<open>Path functions of the Go library\<close>

type_synonym bytes = string

fun split_slash :: "string \<Rightarrow> string list" where
  "split_slash [] = [[]]"
| "split_slash (c # cs) =
     (if c = CHR ''/'' then [] # split_slash cs
      else (case split_slash cs of
              [] \<Rightarrow> [[c]]
            | x # xs \<Rightarrow> (c # x) # xs))"

fun join_slash :: "string list \<Rightarrow> string" where
  "join_slash [] = []"
| "join_slash [x] = x"
| "join_slash (x # y # ys) = x @ ''/'' @ join_slash (y # ys)"

text \<open>
  \<^verbatim>\<open>filepath.Clean\<close> on a Unix path: empty and \<^verbatim>\<open>.\<close> elements are dropped, a
  \<^verbatim>\<open>..\<close> removes the element before it, is dropped at the root and is kept at the
  start of a relative path. The second argument is the stack of elements kept so far.
\<close>

fun clean_elems :: "bool \<Rightarrow> string list \<Rightarrow> string list \<Rightarrow> string list" where
  "clean_elems rooted st [] = rev st"
| "clean_elems rooted st (e # es) =
     (if e = [] \<or> e = ''.'' then clean_elems rooted st es
      else if e = ''..'' then
        (case st of
           [] \<Rightarrow> if rooted then clean_elems rooted [] es else clean_elems rooted [''..''] es
         | t # ts \<Rightarrow> if t = ''..'' then clean_elems rooted (e # st) es
                     else clean_elems rooted ts es)
      else clean_elems rooted (e # st) es)"

definition Clean :: "string \<Rightarrow> string" where
  "Clean p =
     (let rooted = (case p of [] \<Rightarrow> False | c # _ \<Rightarrow> c = CHR ''/'');
          out = (if rooted then ''/'' else []) @ join_slash (clean_elems rooted [] (split_slash p))
      in if out = [] then ''.'' else out)"

text \<open>\<^verbatim>\<open>filepath.Join\<close>: leading empty elements are ignored, the rest is joined and cleaned.\<close>

definition Join :: "string list \<Rightarrow> string" where
  "Join elem =
     (case dropWhile (\<lambda>e. e = []) elem of
        [] \<Rightarrow> []
      | e # es \<Rightarrow> Clean (join_slash (e # es)))"

text \<open>\<^verbatim>\<open>strings.TrimPrefix\<close>\<close>

definition TrimPrefix :: "string \<Rightarrow> string \<Rightarrow> string" where
  "TrimPrefix s prefix = (if take (length prefix) s = prefix then drop (length prefix) s else s)"

subsection \<open>Data\<close>

text \<open>A \<^verbatim>\<open>float64\<close> is carried as its 64 bits; the registry never computes with it.\<close>

type_synonym float64 = "64 word"

type_synonym addr = nat
type_synonym ptr = "addr option"
type_synonym chan = nat
type_synonym socket = nat

record metadata =
  Name :: string
  Date :: int

record performance =
  Algorithm :: string
  ConfusionMatrix :: "(string \<times> (string \<times> float64) list) list"
  Score :: float64

record Model =
  ID :: string
  Metadata :: metadata
  Performance :: performance
  Running :: bool
  Trained :: bool
  req :: "chan option"
  rep :: "chan option"
  dir :: string
  cmd :: "nat option"

text \<open>The zero value of \<^verbatim>\<open>Model\<close>.\<close>

definition Model0 :: Model where
  "Model0 = \<lparr>ID = [], Metadata = \<lparr>Name = [], Date = 0\<rparr>,
     Performance = \<lparr>Algorithm = [], ConfusionMatrix = [], Score = 0\<rparr>,
     Running = False, Trained = False, req = None, rep = None, dir = [], cmd = None\<rparr>"

text \<open>
  What \<^verbatim>\<open>json.Decode\<close> can fill in: the exported fields of \<^verbatim>\<open>Model\<close>. A field missing
  from the file keeps its zero value.
\<close>

record model_json =
  jID :: string
  jMetadata :: metadata
  jPerformance :: performance
  jRunning :: bool
  jTrained :: bool

definition decoded :: "model_json \<Rightarrow> Model" where
  "decoded j = Model0\<lparr>ID := jID j, Metadata := jMetadata j, Performance := jPerformance j,
     Running := jRunning j, Trained := jTrained j\<rparr>"

datatype jvalue = JString string | JNumber float64 | JOther

record ModelReq =
  ModelID :: string
  ReqName :: string
  ReqDate :: int
  Data :: "(string \<times> jvalue) list list"
  Labels :: "jvalue list"
  isRegression :: bool

type_synonym labels = "(string \<times> float64) list list"

text \<open>\<^verbatim>\<open>Prediction\<close>; a \<^verbatim>\<open>nil\<close> slice of labels is \<open>None\<close>.\<close>

record Prediction =
  PredModelID :: string
  PredLabels :: "labels option"

definition Prediction0 :: Prediction where
  "Prediction0 = \<lparr>PredModelID = [], PredLabels = None\<rparr>"

datatype error =
    ErrModelNotFound
  | PathError string
  | DecodeError string
  | BadPattern string
  | ZmqError string
  | ErrProcessDone

fun Error :: "error \<Rightarrow> string" where
  "Error ErrModelNotFound = ''model not found''"
| "Error (PathError s) = s"
| "Error (DecodeError s) = s"
| "Error (BadPattern s) = s"
| "Error (ZmqError s) = s"
| "Error ErrProcessDone = ''os: process already finished''"

text \<open>How a call ends: it returns, it panics, or it blocks and never returns.\<close>

datatype 'a outcome = Returns 'a | Panics string | BlocksForever

definition nil_deref :: string where
  "nil_deref = ''runtime error: invalid memory address or nil pointer dereference''"

text \<open>
  \<^verbatim>\<open>os.Open\<close> on a path: the file does not exist (\<^verbatim>\<open>os.IsNotExist\<close> holds of the
  error), it cannot be opened or read for another reason, or it is there with its bytes.
\<close>

datatype fs_entry = ENOENT | EOTHER string | File bytes

text \<open>
  \<^verbatim>\<open>cmd.Process\<close> of an \<^verbatim>\<open>exec.Cmd\<close>: \<^verbatim>\<open>nil\<close> until \<^verbatim>\<open>Start\<close> succeeds, then a
  live process, then a process that has been waited for.
\<close>

datatype process = NotStarted | Alive | Finished

datatype script = FitPy | PredictPy

record Cmd =
  Args :: "string list"
  Stdin :: script
  Process :: process

datatype chan_state = Open | Closed

datatype signal = Interrupt | Kill

datatype level = Info | Err

text \<open>The two goroutines \<^verbatim>\<open>startModel\<close> starts, with what their closures capture.\<close>

datatype goroutine = Supervisor addr nat | Bridge addr socket

record world =
  path :: string
  collection :: "(string \<times> addr) list"
  heap :: "Model list"
  chans :: "chan_state list"
  cmds :: "Cmd list"
  goroutines :: "goroutine list"
  signals :: "(nat \<times> signal) list"
  logged :: "(level \<times> string) list"
  files :: "string \<Rightarrow> fs_entry"

record env =
  json_Decode_Model :: "bytes \<Rightarrow> string + model_json"
  json_Encode_Req :: "ModelReq \<Rightarrow> string + bytes"
  json_Decode_Pred :: "bytes \<Rightarrow> labels option \<times> string option"
  filepath_Glob :: "string \<Rightarrow> string + string list"
  zmq_NewSocket :: "string + socket"
  zmq_Connect :: "socket \<Rightarrow> string \<Rightarrow> string option"
  ioutil_TempFile :: "string \<Rightarrow> string + string"
  cmd_Run :: "Cmd \<Rightarrow> (string \<Rightarrow> fs_entry) \<Rightarrow> (string \<times> string) option \<times> (string \<Rightarrow> fs_entry)"
  uuid_New :: string
  peer_receives :: "chan \<Rightarrow> bytes \<Rightarrow> unit outcome"
  peer_sends :: "chan \<Rightarrow> bytes outcome"

subsection \<open>Stores, channels and the log\<close>

definition log_Info :: "string \<Rightarrow> world \<Rightarrow> world" where
  "log_Info s w = w\<lparr>logged := logged w @ [(Info, s)]\<rparr>"

definition log_Error :: "string \<Rightarrow> world \<Rightarrow> world" where
  "log_Error s w = w\<lparr>logged := logged w @ [(Err, s)]\<rparr>"

definition new_Model :: "world \<Rightarrow> Model \<Rightarrow> addr \<times> world" where
  "new_Model w m = (length (heap w), w\<lparr>heap := heap w @ [m]\<rparr>)"

definition update_Model :: "world \<Rightarrow> addr \<Rightarrow> (Model \<Rightarrow> Model) \<Rightarrow> world" where
  "update_Model w a f = w\<lparr>heap := (heap w)[a := f (heap w ! a)]\<rparr>"

definition make_chan :: "world \<Rightarrow> chan \<times> world" where
  "make_chan w = (length (chans w), w\<lparr>chans := chans w @ [Open]\<rparr>)"

definition exec_Command :: "world \<Rightarrow> string list \<Rightarrow> script \<Rightarrow> nat \<times> world" where
  "exec_Command w args stdin =
     (length (cmds w), w\<lparr>cmds := cmds w @ [\<lparr>Args = args, Stdin = stdin, Process = NotStarted\<rparr>]\<rparr>)"

definition go :: "world \<Rightarrow> goroutine \<Rightarrow> world" where
  "go w g = w\<lparr>goroutines := goroutines w @ [g]\<rparr>"

text \<open>
  Go's channel operations on an unbuffered channel. A send on a closed channel panics,
  a receive from a closed channel returns the zero value at once, either on a
  \<^verbatim>\<open>nil\<close> channel blocks forever; on an open channel the operation waits for the
  goroutine at the other end, which \<open>env\<close> answers for.
\<close>

definition chan_send :: "env \<Rightarrow> world \<Rightarrow> chan option \<Rightarrow> bytes \<Rightarrow> unit outcome" where
  "chan_send e w c b =
     (case c of
        None \<Rightarrow> BlocksForever
      | Some k \<Rightarrow> (case chans w ! k of
                    Closed \<Rightarrow> Panics ''send on closed channel''
                  | Open \<Rightarrow> peer_receives e k b))"

definition chan_recv :: "env \<Rightarrow> world \<Rightarrow> chan option \<Rightarrow> bytes outcome" where
  "chan_recv e w c =
     (case c of
        None \<Rightarrow> BlocksForever
      | Some k \<Rightarrow> (case chans w ! k of
                    Closed \<Rightarrow> Returns []
                  | Open \<Rightarrow> peer_sends e k))"

definition chan_close :: "world \<Rightarrow> chan option \<Rightarrow> unit outcome \<times> world" where
  "chan_close w c =
     (case c of
        None \<Rightarrow> (Panics ''close of nil channel'', w)
      | Some k \<Rightarrow> (case chans w ! k of
                    Closed \<Rightarrow> (Panics ''close of closed channel'', w)
                  | Open \<Rightarrow> (Returns (), w\<lparr>chans := (chans w)[k := Closed]\<rparr>)))"

subsection \<open>workers.go: startModel and its goroutines\<close>

definition socketPath :: "string \<Rightarrow> string" where
  "socketPath mid = ''ipc:///tmp/'' @ mid"

definition startModel :: "env \<Rightarrow> world \<Rightarrow> addr \<Rightarrow> error option \<times> world" where
  "startModel e w a =
     (let (rq, w1) = make_chan w;
          (rp, w2) = make_chan w1;
          w3 = update_Model w2 a (\<lambda>m. m\<lparr>req := Some rq, rep := Some rp, Running := True\<rparr>);
          m = heap w3 ! a
      in case zmq_NewSocket e of
           Inl err \<Rightarrow> (Some (ZmqError err), w3)
         | Inr sock \<Rightarrow>
             (let fileName = ID m @ ''.pkl'';
                  (c, w4) = exec_Command w3
                     [''python3'', ''-'', socketPath (ID m), Join [dir m, fileName]] PredictPy;
                  w5 = update_Model w4 a (\<lambda>m. m\<lparr>cmd := Some c\<rparr>);
                  w6 = go w5 (Supervisor a c)
              in case zmq_Connect e sock (socketPath (ID m)) of
                   Some err \<Rightarrow> (Some (ZmqError err), w6)
                 | None \<Rightarrow> (None, go w6 (Bridge a sock))))"

text \<open>
  The supervisor goroutine, in its two steps. First it logs and \<^verbatim>\<open>cmd.Run\<close> starts the
  process (\<open>started\<close> tells whether \<^verbatim>\<open>python3\<close> could be started). When \<^verbatim>\<open>cmd.Run\<close>
  returns, with the error and the captured stderr if there is one, it logs, and the
  deferred function clears \<^verbatim>\<open>Running\<close> and closes the channel that \<^verbatim>\<open>m.req\<close> holds
  then.
\<close>

definition supervisor_begin :: "world \<Rightarrow> addr \<Rightarrow> nat \<Rightarrow> bool \<Rightarrow> world" where
  "supervisor_begin w a c started =
     (let w1 = log_Info (''starting model '' @ ID (heap w ! a)) w
      in if started then w1\<lparr>cmds := (cmds w1)[c := (cmds w1 ! c)\<lparr>Process := Alive\<rparr>]\<rparr> else w1)"

definition supervisor_end :: "world \<Rightarrow> addr \<Rightarrow> nat \<Rightarrow> (string \<times> string) option \<Rightarrow> unit outcome \<times> world" where
  "supervisor_end w a c err =
     (let w1 = (if Process (cmds w ! c) = Alive
                then w\<lparr>cmds := (cmds w)[c := (cmds w ! c)\<lparr>Process := Finished\<rparr>]\<rparr> else w);
          mid = ID (heap w1 ! a);
          w2 = (case err of
                  Some (msg, stderr) \<Rightarrow>
                    log_Error (''model '' @ mid @ '' exited: '' @ msg @ '' '' @ stderr) w1
                | None \<Rightarrow> log_Info (''model '' @ mid @ '' exited'') w1);
          w3 = update_Model w2 a (\<lambda>m. m\<lparr>Running := False\<rparr>)
      in chan_close w3 (req (heap w3 ! a)))"

subsection \<open>models.go: the registry\<close>

text \<open>\<^verbatim>\<open>NewModelRepo\<close>; the second argument is the disk that the process finds.\<close>

definition NewModelRepo :: "string \<Rightarrow> (string \<Rightarrow> fs_entry) \<Rightarrow> world" where
  "NewModelRepo p fs = \<lparr>path = p, collection = [], heap = [], chans = [], cmds = [],
     goroutines = [], signals = [], logged = [], files = fs\<rparr>"

definition Add :: "world \<Rightarrow> ptr \<Rightarrow> unit outcome \<times> world" where
  "Add w m =
     (case m of
        None \<Rightarrow> (Panics nil_deref, w)
      | Some a \<Rightarrow> (Returns (), w\<lparr>collection := AList.update (ID (heap w ! a)) a (collection w)\<rparr>))"

definition Remove :: "world \<Rightarrow> string \<Rightarrow> world" where
  "Remove w mid = w\<lparr>collection := AList.delete mid (collection w)\<rparr>"

definition NewModel :: "env \<Rightarrow> world \<Rightarrow> addr \<times> world" where
  "NewModel e w =
     (let mid = uuid_New e
      in new_Model w (Model0\<lparr>ID := mid, dir := Join [path w, mid]\<rparr>))"

text \<open>\<^verbatim>\<open>All\<close>: the records of the collection (Go gives them in no particular order).\<close>

definition All_models :: "world \<Rightarrow> addr list" where
  "All_models w = map snd (collection w)"

text \<open>
  \<^verbatim>\<open>LoadModelData\<close>. The variable \<^verbatim>\<open>m\<close> that is returned is the one bound by the lookup
  in the collection; the \<^verbatim>\<open>var m Model\<close> inside the \<^verbatim>\<open>if\<close> is another variable, which
  lives in that block only. It is \<open>m'\<close> here.
\<close>

definition LoadModelData :: "env \<Rightarrow> world \<Rightarrow> string \<Rightarrow> (ptr \<times> error option) \<times> world" where
  "LoadModelData e w mid =
     (let m = map_of (collection w) mid
      in case m of
           Some a \<Rightarrow> ((m, None), w)
         | None \<Rightarrow>
             (let modelDir = Join [path w, mid]
              in case files w (Join [modelDir, mid @ ''.json'']) of
                   ENOENT \<Rightarrow> ((None, Some ErrModelNotFound), w)
                 | EOTHER msg \<Rightarrow> ((None, Some (PathError msg)), w)
                 | File f \<Rightarrow>
                     (case json_Decode_Model e f of
                        Inl msg \<Rightarrow> ((None, Some (DecodeError msg)), w)
                      | Inr j \<Rightarrow>
                          (let m' = (decoded j)\<lparr>dir := modelDir, Trained := True\<rparr>;
                               (a, w1) = new_Model w m';
                               w2 = snd (Add w1 (Some a))
                           in ((m, None), w2)))))"

definition Get :: "env \<Rightarrow> world \<Rightarrow> string \<Rightarrow> (ptr \<times> error option) outcome \<times> world" where
  "Get e w mid =
     (let ((m, err), w1) =
            (case map_of (collection w) mid of
               Some a \<Rightarrow> ((Some a, None), w)
             | None \<Rightarrow> LoadModelData e w mid)
      in if err \<noteq> None then (Returns (None, err), w1)
         else (case Add w1 m of
                 (Panics s, w2) \<Rightarrow> (Panics s, w2)
               | (BlocksForever, w2) \<Rightarrow> (BlocksForever, w2)
               | (Returns _, w2) \<Rightarrow>
                   (case m of
                      None \<Rightarrow> (Panics nil_deref, w2)
                    | Some a \<Rightarrow>
                        if \<not> Running (heap w2 ! a) then
                          (case startModel e w2 a of
                             (Some err', w3) \<Rightarrow> (Returns (None, Some err'), w3)
                           | (None, w3) \<Rightarrow> (Returns (m, None), w3))
                        else (Returns (m, None), w2))))"

fun index_models :: "env \<Rightarrow> world \<Rightarrow> string list \<Rightarrow> world" where
  "index_models e w [] = w"
| "index_models e w (model # models) =
     (let modelID = TrimPrefix model (path w @ ''/'')
      in index_models e (snd (LoadModelData e w modelID)) models)"

definition IndexModelDir :: "env \<Rightarrow> world \<Rightarrow> error option \<times> world" where
  "IndexModelDir e w =
     (case filepath_Glob e (Join [path w, ''/*'']) of
        Inl msg \<Rightarrow> (Some (BadPattern msg), w)
      | Inr models \<Rightarrow> (None, index_models e w models))"

text \<open>
  \<^verbatim>\<open>Predict\<close>. The request is encoded first; then the receiver is read.
\<close>

definition Predict :: "env \<Rightarrow> world \<Rightarrow> ptr \<Rightarrow> ModelReq \<Rightarrow> Prediction outcome \<times> world" where
  "Predict e w p r =
     (case json_Encode_Req e r of
        Inl msg \<Rightarrow> (Returns Prediction0, log_Error (''error encoding prediction '' @ msg) w)
      | Inr buf \<Rightarrow>
          (case p of
             None \<Rightarrow> (Panics nil_deref, w)
           | Some a \<Rightarrow>
               (let m = heap w ! a
                in if req m = None then
                     (Returns Prediction0,
                      log_Error (''request chan for model '' @ ID m @ '' is nil'') w)
                   else (case chan_send e w (req m) buf of
                           Panics s \<Rightarrow> (Panics s, w)
                         | BlocksForever \<Rightarrow> (BlocksForever, w)
                         | Returns _ \<Rightarrow>
                             (case chan_recv e w (rep m) of
                                Panics s \<Rightarrow> (Panics s, w)
                              | BlocksForever \<Rightarrow> (BlocksForever, w)
                              | Returns resp \<Rightarrow>
                                  (let (pred, err) = json_Decode_Pred e resp;
                                       w1 = (case err of
                                               Some msg \<Rightarrow> log_Error (''error decoding prediction '' @ msg) w
                                             | None \<Rightarrow> w)
                                   in (Returns \<lparr>PredModelID = ModelID r, PredLabels = pred\<rparr>, w1)))))))"

text \<open>
  \<^verbatim>\<open>Stop\<close>. \<^verbatim>\<open>Process.Signal\<close> on a live process delivers the signal and returns
  \<^verbatim>\<open>nil\<close>; on a process that has been waited for it returns the error
  \<^verbatim>\<open>os: process already finished\<close>; \<^verbatim>\<open>m.cmd.Process\<close> is \<^verbatim>\<open>nil\<close> when the process was
  never started.
\<close>

definition Stop :: "world \<Rightarrow> ptr \<Rightarrow> error option outcome \<times> world" where
  "Stop w p =
     (case p of
        None \<Rightarrow> (Panics nil_deref, w)
      | Some a \<Rightarrow>
          (case cmd (heap w ! a) of
             None \<Rightarrow> (Returns None, w)
           | Some c \<Rightarrow>
               (case Process (cmds w ! c) of
                  NotStarted \<Rightarrow> (Panics nil_deref, w)
                | Alive \<Rightarrow> (Returns None, w\<lparr>signals := signals w @ [(c, Interrupt)]\<rparr>)
                | Finished \<Rightarrow> (Returns (Some ErrProcessDone), w))))"

text \<open>
  The bridging goroutine of \<^verbatim>\<open>startModel\<close>, as the list of the operations it
  completes. The last argument is what \<^verbatim>\<open>range m.req\<close> yields until the channel is
  closed, in the order of the channel. The socket is a state machine; a call on it that
  never returns is \<open>None\<close>, and the goroutine is stuck there. The result tells whether
  the goroutine came to its end.
\<close>

record 's zmq_socket =
  SendBytes :: "'s \<Rightarrow> bytes \<Rightarrow> ('s \<times> string option) option"
  RecvBytes :: "'s \<Rightarrow> ('s \<times> bytes \<times> string option) option"

datatype event = IpcSend bytes | IpcRecv bytes | ChanReply bytes | ChanClose | LogError string

definition log_if :: "string \<Rightarrow> string option \<Rightarrow> event list" where
  "log_if what err = (case err of None \<Rightarrow> [] | Some msg \<Rightarrow> [LogError (what @ msg)])"

definition and_then :: "event list \<Rightarrow> event list \<times> bool \<Rightarrow> event list \<times> bool" where
  "and_then evs r = (evs @ fst r, snd r)"

fun bridge :: "'s zmq_socket \<Rightarrow> string \<Rightarrow> 's \<Rightarrow> bytes list \<Rightarrow> event list \<times> bool" where
  "bridge z mid s [] = ([ChanClose], True)"
| "bridge z mid s (request # rest) =
     (case SendBytes z s request of
        None \<Rightarrow> ([], False)
      | Some (s1, err1) \<Rightarrow>
          and_then (IpcSend request # log_if (''error sending data to model '' @ mid @ '': '') err1)
            (case RecvBytes z s1 of
               None \<Rightarrow> ([], False)
             | Some (s2, resp, err2) \<Rightarrow>
                 and_then (IpcRecv resp
                           # log_if (''error receiving data from model '' @ mid @ '': '') err2
                           @ [ChanReply resp])
                   (bridge z mid s2 rest)))"

text \<open>
  The trace the bridge is meant to leave for requests paired with their replies: for each
  request one send, one receive, one reply on the response channel, in the order of the
  requests. \<open>protocol\<close> drops the log lines from a trace.
\<close>

fun served :: "(bytes \<times> bytes) list \<Rightarrow> event list" where
  "served [] = []"
| "served ((q, p) # xs) = [IpcSend q, IpcRecv p, ChanReply p] @ served xs"

fun is_log :: "event \<Rightarrow> bool" where
  "is_log (LogError _) = True"
| "is_log _ = False"

definition protocol :: "event list \<Rightarrow> event list" where
  "protocol evs = filter (\<lambda>ev. \<not> is_log ev) evs"

subsection \<open>workers.go: fitModel\<close>

definition os_Remove :: "world \<Rightarrow> string \<Rightarrow> world" where
  "os_Remove w f = w\<lparr>files := (files w)(f := ENOENT)\<rparr>"

definition fit_Command :: "Model \<Rightarrow> string \<Rightarrow> Cmd" where
  "fit_Command m f = \<lparr>Args = [''python3'', ''-'', dir m, f], Stdin = FitPy, Process = NotStarted\<rparr>"

definition fitModel :: "env \<Rightarrow> world \<Rightarrow> addr \<Rightarrow> ModelReq \<Rightarrow> world" where
  "fitModel e w a d =
     (let m = heap w ! a;
          w1 = log_Info (''started fitting model '' @ ID m) w
      in case ioutil_TempFile e (ID m) of
           Inl msg \<Rightarrow> log_Error (''unable to open temp file for fitting model '' @ msg) w1
         | Inr f \<Rightarrow>
             (let w2 = w1\<lparr>files := (files w1)(f := File [])\<rparr>
              in case json_Encode_Req e d of
                   Inl msg \<Rightarrow> os_Remove (log_Error (''error encoding training data '' @ msg) w2) f
                 | Inr buf \<Rightarrow>
                     (let w3 = w2\<lparr>files := (files w2)(f := File buf)\<rparr>;
                          (err, fs) = cmd_Run e (fit_Command m f) (files w3);
                          w4 = w3\<lparr>files := fs\<rparr>;
                          w5 = (case err of
                                  Some (msg, stderr) \<Rightarrow>
                                    log_Error (''error fitting model '' @ ID m @ '': '' @ msg
                                               @ '' '' @ stderr) w4
                                | None \<Rightarrow> w4);
                          ((_, err'), w6) = LoadModelData e w5 (ID m);
                          w7 = (case err' of
                                  Some er \<Rightarrow>
                                    log_Error (''error loading model '' @ ID m @ '': '' @ Error er) w6
                                | None \<Rightarrow> w6);
                          w8 = log_Info (''finished fitting model '' @ ID m) w7
                      in os_Remove w8 f)))"

text \<open>
  What the socket itself gives for a run of requests, handled one after the other from
  the state \<open>s\<close>: \<open>answered\<close> pairs each request with the reply received for it, up to
  the first call that never returns; \<open>last_step\<close> is what follows the last answered
  request: the close of the response channel when all were answered, nothing when the
  send of the next request never returns, that send alone when its receive never returns.
\<close>

fun answered :: "'s zmq_socket \<Rightarrow> 's \<Rightarrow> bytes list \<Rightarrow> (bytes \<times> bytes) list" where
  "answered z s [] = []"
| "answered z s (q # qs) =
     (case SendBytes z s q of
        None \<Rightarrow> []
      | Some (s1, err1) \<Rightarrow>
          (case RecvBytes z s1 of
             None \<Rightarrow> []
           | Some (s2, p, err2) \<Rightarrow> (q, p) # answered z s2 qs))"

fun last_step :: "'s zmq_socket \<Rightarrow> 's \<Rightarrow> bytes list \<Rightarrow> event list" where
  "last_step z s [] = [ChanClose]"
| "last_step z s (q # qs) =
     (case SendBytes z s q of
        None \<Rightarrow> []
      | Some (s1, err1) \<Rightarrow>
          (case RecvBytes z s1 of
             None \<Rightarrow> [IpcSend q]
           | Some (s2, p, err2) \<Rightarrow> last_step z s2 qs))"

text \<open>
  Whether the metadata file that \<^verbatim>\<open>LoadModelData\<close> opens for an id is there and
  decodes.
\<close>

definition decodable :: "env \<Rightarrow> world \<Rightarrow> string \<Rightarrow> bool" where
  "decodable e w mid =
     (case files w (Join [Join [path w, mid], mid @ ''.json'']) of
        File f \<Rightarrow> (case json_Decode_Model e f of Inr j \<Rightarrow> True | Inl msg \<Rightarrow> False)
      | _ \<Rightarrow> False)"


subsection \<open>A concrete registry\<close>

text \<open>
  One model directory \<^verbatim>\<open>models\<close> with two entries: \<^verbatim>\<open>iris\<close>, whose metadata file
  decodes, and \<^verbatim>\<open>broken\<close>, whose metadata file does not. The metadata of \<^verbatim>\<open>iris\<close> says
  \<^verbatim>\<open>"trained": false\<close>.
\<close>

definition iris :: model_json where
  "iris = \<lparr>jID = ''iris'', jMetadata = \<lparr>Name = ''iris model 1'', Date = 0\<rparr>,
     jPerformance = \<lparr>Algorithm = ''GradientBoostingClassifier'', ConfusionMatrix = [],
       Score = 0x3FEEF4A4F4A4F4A5\<rparr>,
     jRunning = False, jTrained = False\<rparr>"

definition env0 :: env where
  "env0 = \<lparr>json_Decode_Model = (\<lambda>f. if f = ''<iris>'' then Inr iris else Inl ''invalid character''),
     json_Encode_Req = (\<lambda>r. Inr ''<request>''),
     json_Decode_Pred = (\<lambda>b. if b = [] then (None, Some ''EOF'') else (Some [], None)),
     filepath_Glob = (\<lambda>p. if p = ''models/*'' then Inr [''models/broken'', ''models/iris'']
                          else Inr []),
     zmq_NewSocket = Inr 0,
     zmq_Connect = (\<lambda>s p. None),
     ioutil_TempFile = (\<lambda>prefix. Inr (''/tmp/'' @ prefix @ ''1'')),
     cmd_Run = (\<lambda>c fs. (None, fs)),
     uuid_New = ''iris'',
     peer_receives = (\<lambda>k b. Returns ()),
     peer_sends = (\<lambda>k. Returns ''[]'')\<rparr>"

definition disk0 :: "string \<Rightarrow> fs_entry" where
  "disk0 = (\<lambda>p. if p = ''models/iris/iris.json'' then File ''<iris>''
                else if p = ''models/broken/broken.json'' then File ''<broken>''
                else ENOENT)"

definition w0 :: world where
  "w0 = NewModelRepo ''models'' disk0"

definition iris_loaded :: Model where
  "iris_loaded = \<lparr>ID = ''iris'', Metadata = \<lparr>Name = ''iris model 1'', Date = 0\<rparr>,
     Performance = \<lparr>Algorithm = ''GradientBoostingClassifier'', ConfusionMatrix = [],
       Score = 0x3FEEF4A4F4A4F4A5\<rparr>,
     Running = False, Trained = True, req = None, rep = None, dir = ''models/iris'',
     cmd = None\<rparr>"

text \<open>The registry after \<^verbatim>\<open>iris\<close> has been loaded, and before its worker is started.\<close>

definition w_cached :: world where
  "w_cached = w0\<lparr>collection := [(''iris'', 0)], heap := [iris_loaded]\<rparr>"

definition predict_cmd :: "process \<Rightarrow> Cmd" where
  "predict_cmd p = \<lparr>Args = [''python3'', ''-'', ''ipc:///tmp/iris'', ''models/iris/iris.pkl''],
     Stdin = PredictPy, Process = p\<rparr>"

text \<open>The same registry with the worker of \<^verbatim>\<open>iris\<close> started and its process alive.\<close>

definition w_alive :: world where
  "w_alive = w_cached\<lparr>
     heap := [iris_loaded\<lparr>Running := True, req := Some 0, rep := Some 1, cmd := Some 0\<rparr>],
     chans := [Open, Open], cmds := [predict_cmd Alive],
     goroutines := [Supervisor 0 0, Bridge 0 0],
     logged := [(Info, ''starting model iris'')]\<rparr>"

text \<open>And after that process has exited: what the supervisor goroutine leaves.\<close>

definition w_exited :: world where
  "w_exited = w_alive\<lparr>
     heap := [iris_loaded\<lparr>Running := False, req := Some 0, rep := Some 1, cmd := Some 0\<rparr>],
     chans := [Closed, Open], cmds := [predict_cmd Finished],
     logged := [(Info, ''starting model iris''), (Info, ''model iris exited'')]\<rparr>"

definition request0 :: ModelReq where
  "request0 = \<lparr>ModelID = ''iris'', ReqName = [], ReqDate = 0,
     Data = [[(''sepal_length'', JNumber 0)]], Labels = [], isRegression = False\<rparr>"

definition env_nosocket :: env where
  "env_nosocket = env0\<lparr>zmq_NewSocket := Inl ''too many open files''\<rparr>"

definition env_noconnect :: env where
  "env_noconnect = env0\<lparr>zmq_Connect := (\<lambda>s p. Some ''invalid argument'')\<rparr>"

text \<open>A worker that answers every request with the request itself.\<close>

definition echo :: "bytes zmq_socket" where
  "echo = \<lparr>SendBytes = (\<lambda>s b. Some (b, None)), RecvBytes = (\<lambda>s. Some (s, s, None))\<rparr>"

text \<open>A worker that takes requests and never answers.\<close>

definition mute :: "bytes zmq_socket" where
  "mute = \<lparr>SendBytes = (\<lambda>s b. Some (b, None)), RecvBytes = (\<lambda>s. None)\<rparr>"

text \<open>
  A fit job for a new model \<^verbatim>\<open>fresh\<close>: one fit process that writes the metadata file
  and exits 0, one that exits 1 and writes nothing.
\<close>

definition fresh :: model_json where
  "fresh = \<lparr>jID = ''fresh'', jMetadata = \<lparr>Name = ''new model'', Date = 1\<rparr>,
     jPerformance = \<lparr>Algorithm = ''LogisticRegression'', ConfusionMatrix = [],
       Score = 0x3FE8000000000000\<rparr>,
     jRunning = False, jTrained = True\<rparr>"

definition env_fit_ok :: env where
  "env_fit_ok = env0\<lparr>uuid_New := ''fresh'',
     json_Decode_Model := (\<lambda>f. if f = ''<fresh>'' then Inr fresh else Inl ''invalid character''),
     cmd_Run := (\<lambda>c fs. (None, fs(''models/fresh/fresh.json'' := File ''<fresh>'')))\<rparr>"

definition env_fit_fail :: env where
  "env_fit_fail = env0\<lparr>uuid_New := ''fresh'',
     cmd_Run := (\<lambda>c fs. (Some (''exit status 1'', ''Traceback''), fs))\<rparr>"

definition w_new :: world where
  "w_new = w0\<lparr>heap := [Model0\<lparr>ID := ''fresh'', dir := ''models/fresh''\<rparr>]\<rparr>"

section \<open>Properties\<close>

subsection \<open>Evaluating the concrete registry\<close>

lemma path_iris: "Join [Join [''models'', ''iris''], ''iris.json''] = ''models/iris/iris.json''"
  by (simp add: Join_def Clean_def)

lemma path_nope: "Join [Join [''models'', ''nope''], ''nope.json''] = ''models/nope/nope.json''"
  by (simp add: Join_def Clean_def)

lemma dir_iris: "Join [''models'', ''iris''] = ''models/iris''"
  by (simp add: Join_def Clean_def)

lemma pkl_iris: "Join [''models/iris'', ''iris.pkl''] = ''models/iris/iris.pkl''"
  by (simp add: Join_def Clean_def)

lemma load_iris: "LoadModelData env0 w0 ''iris'' = ((None, None), w_cached)"
  using path_iris dir_iris
  by (simp add: LoadModelData_def w0_def NewModelRepo_def disk0_def env0_def new_Model_def Add_def
      decoded_def Model0_def iris_def w_cached_def iris_loaded_def)

lemma start_iris: "supervisor_begin (snd (Get env0 w_cached ''iris'')) 0 0 True = w_alive"
  using pkl_iris
  by (simp add: Get_def Add_def startModel_def make_chan_def update_Model_def exec_Command_def go_def
      socketPath_def supervisor_begin_def log_Info_def
      w_cached_def w0_def NewModelRepo_def env0_def iris_loaded_def w_alive_def predict_cmd_def)

lemma exit_iris: "supervisor_end w_alive 0 0 None = (Returns (), w_exited)"
  by (simp add: supervisor_end_def chan_close_def update_Model_def log_Info_def
      w_alive_def w_exited_def w_cached_def w0_def NewModelRepo_def iris_loaded_def predict_cmd_def)

lemma start_cached: "startModel env0 w_cached 0 = (None, w_alive\<lparr>cmds := [predict_cmd NotStarted], logged := []\<rparr>)"
  using pkl_iris
  by (simp add: startModel_def make_chan_def update_Model_def exec_Command_def go_def
      socketPath_def w_cached_def w0_def NewModelRepo_def env0_def iris_loaded_def w_alive_def predict_cmd_def)

lemma meta_fresh: "Join [Join [''models'', ''fresh''], ''fresh.json''] = ''models/fresh/fresh.json''"
  by (simp add: Join_def Clean_def)

lemma new_fresh: "NewModel env_fit_ok w0 = (0, w_new)"
proof -
  have "Join [''models'', ''fresh''] = ''models/fresh''"
    by (simp add: Join_def Clean_def)
  then show ?thesis
    by (simp add: NewModel_def new_Model_def env_fit_ok_def env0_def w0_def NewModelRepo_def
        w_new_def Let_def)
qed

lemma glob_models: "Join [''models'', ''/*''] = ''models/*''"
  by (simp add: Join_def Clean_def)

lemma path_broken: "Join [Join [''models'', ''broken''], ''broken.json''] = ''models/broken/broken.json''"
  by (simp add: Join_def Clean_def)

lemma load_broken: "LoadModelData env0 w0 ''broken'' = ((None, Some (DecodeError ''invalid character'')), w0)"
  using path_broken
  by (simp add: LoadModelData_def w0_def NewModelRepo_def disk0_def env0_def)

lemma index_models0: "IndexModelDir env0 w0 = (None, w_cached)"
proof -
  have trims: "TrimPrefix ''models/broken'' (path w0 @ ''/'') = ''broken''"
    "TrimPrefix ''models/iris'' (path w0 @ ''/'') = ''iris''"
    by (simp_all add: TrimPrefix_def w0_def NewModelRepo_def)
  have "filepath_Glob env0 (Join [path w0, ''/*'']) = Inr [''models/broken'', ''models/iris'']"
    using glob_models by (simp add: env0_def w0_def NewModelRepo_def)
  then show ?thesis
    by (simp add: IndexModelDir_def trims load_broken load_iris)
qed

subsection \<open>Get and LoadModelData\<close>

text \<open>
  C1. Claimed: for a model id whose metadata file exists and whose record is not in the
  cache, \<^verbatim>\<open>Get\<close> returns the record loaded from the file and inserts it into the cache.
  In the code \<^verbatim>\<open>LoadModelData\<close> does insert the record, but it returns the outer
  \<^verbatim>\<open>m\<close>, which is \<^verbatim>\<open>nil\<close>, with a \<^verbatim>\<open>nil\<close> error; \<^verbatim>\<open>Get\<close> then passes \<^verbatim>\<open>nil\<close> to
  \<^verbatim>\<open>Add\<close>, which dereferences it. So the first \<^verbatim>\<open>Get\<close> panics, and only a second
  \<^verbatim>\<open>Get\<close> returns the record, which the first one left in the cache.
\<close>

theorem Get_uncached_panics:
  "map_of (collection w0) ''iris'' = None
   \<and> files w0 ''models/iris/iris.json'' = File ''<iris>''
   \<and> json_Decode_Model env0 ''<iris>'' = Inr iris
   \<and> fst (LoadModelData env0 w0 ''iris'') = (None, None)
   \<and> Get env0 w0 ''iris'' = (Panics nil_deref, w_cached)
   \<and> fst (Get env0 w_cached ''iris'') = Returns (Some 0, None)"
  using load_iris pkl_iris
  by (simp add: Get_def Add_def w0_def NewModelRepo_def disk0_def env0_def
      startModel_def make_chan_def update_Model_def exec_Command_def go_def socketPath_def
      w_cached_def iris_loaded_def)

text \<open>
  The same happens for every id that is not cached and whose metadata file decodes: the
  record is added and \<^verbatim>\<open>Get\<close> panics.
\<close>

lemma Get_uncached_decodable:
  assumes "map_of (collection w) mid = None"
    and "files w (Join [Join [path w, mid], mid @ ''.json'']) = File f"
    and "json_Decode_Model e f = Inr j"
  shows "fst (LoadModelData e w mid) = (None, None)"
    and "fst (Get e w mid) = Panics nil_deref"
    and "map_of (collection (snd (Get e w mid))) (jID j) = Some (length (heap w))"
  using assms
  by (simp_all add: Get_def LoadModelData_def new_Model_def Add_def decoded_def update_conv')

text \<open>
  C4. For a model id that is not in the cache and whose metadata file does not exist,
  \<^verbatim>\<open>Get\<close> returns \<^verbatim>\<open>ErrModelNotFound\<close> and leaves the whole state, the cache with it,
  as it was.
\<close>

theorem Get_not_found:
  assumes "map_of (collection w) mid = None"
    and "files w (Join [Join [path w, mid], mid @ ''.json'']) = ENOENT"
  shows "Get e w mid = (Returns (None, Some ErrModelNotFound), w)"
  using assms by (simp add: Get_def LoadModelData_def)

theorem Get_not_found_witness:
  "map_of (collection w0) ''nope'' = None
   \<and> files w0 (Join [Join [path w0, ''nope''], ''nope'' @ ''.json'']) = ENOENT
   \<and> Get env0 w0 ''nope'' = (Returns (None, Some ErrModelNotFound), w0)"
proof -
  have absent: "map_of (collection w0) ''nope'' = None"
    by (simp add: w0_def NewModelRepo_def)
  have nofile: "files w0 (Join [Join [path w0, ''nope''], ''nope'' @ ''.json'']) = ENOENT"
    using path_nope by (simp add: w0_def NewModelRepo_def disk0_def)
  from Get_not_found [OF absent nofile] absent nofile show ?thesis by blast
qed

text \<open>
  C10. Every record that \<^verbatim>\<open>LoadModelData\<close> puts into the cache (an entry of the
  collection after the call that was not there before) has \<^verbatim>\<open>Trained\<close> set, whatever
  the metadata file says.
\<close>

theorem LoadModelData_trained:
  assumes "LoadModelData e w mid = (r, w')"
    and "map_of (collection w') k = Some a"
    and "map_of (collection w) k \<noteq> Some a"
  shows "Trained (heap w' ! a)"
  using assms
  by (auto simp: LoadModelData_def Let_def new_Model_def Add_def update_conv' nth_append
      split: option.splits fs_entry.splits sum.splits if_splits)

theorem LoadModelData_trained_witness:
  "LoadModelData env0 w0 ''iris'' = ((None, None), w_cached)
   \<and> map_of (collection w_cached) ''iris'' = Some 0
   \<and> map_of (collection w0) ''iris'' \<noteq> Some 0
   \<and> jTrained iris = False
   \<and> Trained (heap w_cached ! 0)"
proof -
  have new: "map_of (collection w_cached) ''iris'' = Some 0"
    by (simp add: w_cached_def)
  have old: "map_of (collection w0) ''iris'' \<noteq> Some 0"
    by (simp add: w0_def NewModelRepo_def)
  have "jTrained iris = False"
    by (simp add: iris_def)
  with LoadModelData_trained [OF load_iris new old] load_iris new old show ?thesis by blast
qed

text \<open>
  C3. Claimed: when starting the worker inside \<^verbatim>\<open>Get\<close> fails, \<^verbatim>\<open>Get\<close> returns that
  error and the record stays non-running. \<^verbatim>\<open>Get\<close> does return the error, but
  \<^verbatim>\<open>startModel\<close> sets \<^verbatim>\<open>Running\<close> before it creates the socket and returns on either
  failure without clearing it: with no socket there is not even a goroutine that could.
\<close>

theorem Get_start_failure_leaves_running:
  "map_of (collection w_cached) ''iris'' = Some 0
   \<and> Running (heap w_cached ! 0) = False
   \<and> fst (Get env_nosocket w_cached ''iris'') = Returns (None, Some (ZmqError ''too many open files''))
   \<and> Running (heap (snd (Get env_nosocket w_cached ''iris'')) ! 0) = True
   \<and> goroutines (snd (Get env_nosocket w_cached ''iris'')) = []
   \<and> fst (Get env_noconnect w_cached ''iris'') = Returns (None, Some (ZmqError ''invalid argument''))
   \<and> Running (heap (snd (Get env_noconnect w_cached ''iris'')) ! 0) = True"
  using pkl_iris
  by (simp add: Get_def Add_def startModel_def make_chan_def update_Model_def exec_Command_def go_def
      socketPath_def env_nosocket_def env_noconnect_def
      w_cached_def w0_def NewModelRepo_def env0_def iris_loaded_def)

text \<open>
  In general: whenever \<^verbatim>\<open>startModel\<close> fails for a cached record that is not running,
  \<^verbatim>\<open>Get\<close> returns the error and leaves the record with \<^verbatim>\<open>Running\<close> set.
\<close>

lemma Get_start_failure:
  assumes "map_of (collection w) mid = Some a" and "a < length (heap w)"
    and "\<not> Running (heap w ! a)"
    and "zmq_NewSocket e = Inl msg \<or> (\<exists>sock. zmq_NewSocket e = Inr sock \<and> zmq_Connect e sock (socketPath (ID (heap w ! a))) = Some msg)"
  shows "fst (Get e w mid) = Returns (None, Some (ZmqError msg))"
    and "Running (heap (snd (Get e w mid)) ! a)"
  using assms
  by (auto simp: Get_def Add_def startModel_def make_chan_def update_Model_def exec_Command_def
      go_def Let_def split: sum.splits option.splits)


subsection \<open>IndexModelDir\<close>

lemma LoadModelData_frame:
  "path (snd (LoadModelData e w mid)) = path w"
  "files (snd (LoadModelData e w mid)) = files w"
  "logged (snd (LoadModelData e w mid)) = logged w"
  by (simp_all add: LoadModelData_def new_Model_def Add_def Let_def
      split: option.splits fs_entry.splits sum.splits)

lemma LoadModelData_keeps_keys:
  "k \<in> fst ` set (collection w) \<Longrightarrow> k \<in> fst ` set (collection (snd (LoadModelData e w mid)))"
  by (simp add: LoadModelData_def new_Model_def Add_def Let_def dom_update
      split: option.splits fs_entry.splits sum.splits)

lemma LoadModelData_caches:
  assumes "files w (Join [Join [path w, mid], mid @ ''.json'']) = File f"
    and "json_Decode_Model e f = Inr j" and "jID j = mid"
  shows "mid \<in> fst ` set (collection (snd (LoadModelData e w mid)))"
proof (cases "map_of (collection w) mid")
  case None
  with assms show ?thesis
    by (simp add: LoadModelData_def new_Model_def Add_def decoded_def dom_update)
next
  case (Some a)
  then have "(mid, a) \<in> set (collection w)" by (rule map_of_SomeD)
  then have "mid \<in> fst ` set (collection w)" by force
  then show ?thesis by (rule LoadModelData_keeps_keys)
qed

lemma LoadModelData_failure_skips:
  "snd (fst (LoadModelData e w mid)) \<noteq> None \<Longrightarrow> snd (LoadModelData e w mid) = w"
  by (simp add: LoadModelData_def new_Model_def Add_def Let_def
      split: option.splits fs_entry.splits sum.splits)

lemma index_models_frame:
  "path (index_models e w models) = path w
   \<and> files (index_models e w models) = files w
   \<and> logged (index_models e w models) = logged w"
  by (induction models arbitrary: w) (simp_all add: LoadModelData_frame)

lemma index_models_keeps_keys:
  "k \<in> fst ` set (collection w) \<Longrightarrow> k \<in> fst ` set (collection (index_models e w models))"
  by (induction models arbitrary: w) (simp_all add: LoadModelData_keeps_keys)

lemma index_models_caches:
  assumes "model \<in> set models"
    and "files w (Join [Join [path w, TrimPrefix model (path w @ ''/'')],
                        TrimPrefix model (path w @ ''/'') @ ''.json'']) = File f"
    and "json_Decode_Model e f = Inr j"
    and "jID j = TrimPrefix model (path w @ ''/'')"
  shows "TrimPrefix model (path w @ ''/'') \<in> fst ` set (collection (index_models e w models))"
  using assms
proof (induction models arbitrary: w)
  case Nil
  then show ?case by simp
next
  case (Cons x xs)
  let ?w1 = "snd (LoadModelData e w (TrimPrefix x (path w @ ''/'')))"
  show ?case
  proof (cases "model = x")
    case True
    with Cons.prems have "TrimPrefix model (path w @ ''/'') \<in> fst ` set (collection ?w1)"
      by (simp add: LoadModelData_caches)
    then show ?thesis
      by (simp add: index_models_keeps_keys)
  next
    case False
    with Cons.prems have "model \<in> set xs" by simp
    moreover have "path ?w1 = path w" "files ?w1 = files w"
      by (simp_all add: LoadModelData_frame)
    ultimately have "TrimPrefix model (path ?w1 @ ''/'') \<in> fst ` set (collection (index_models e ?w1 xs))"
      using Cons.prems by (intro Cons.IH) simp_all
    then show ?thesis
      by (simp add: LoadModelData_frame)
  qed
qed

lemma decodable_frame:
  "decodable e (snd (LoadModelData e w mid')) mid = decodable e w mid"
  by (simp add: decodable_def LoadModelData_frame)

lemma LoadModelData_heap:
  "length (heap (snd (LoadModelData e w mid)))
     = length (heap w) + (if map_of (collection w) mid = None \<and> decodable e w mid then 1 else 0)"
  by (simp add: LoadModelData_def decodable_def new_Model_def Add_def Let_def
      split: option.splits fs_entry.splits sum.splits)

lemma LoadModelData_same_heap:
  "length (heap (snd (LoadModelData e w mid))) = length (heap w) \<Longrightarrow>
   snd (LoadModelData e w mid) = w"
  by (simp add: LoadModelData_def new_Model_def Add_def Let_def
      split: option.splits fs_entry.splits sum.splits)

lemma index_models_heap_mono:
  "length (heap w) \<le> length (heap (index_models e w models))"
proof (induction models arbitrary: w)
  case Nil
  show ?case by simp
next
  case (Cons x xs)
  let ?w1 = "snd (LoadModelData e w (TrimPrefix x (path w @ ''/'')))"
  have "length (heap w) \<le> length (heap ?w1)"
    by (simp add: LoadModelData_heap)
  also have "\<dots> \<le> length (heap (index_models e ?w1 xs))"
    by (rule Cons.IH)
  finally show ?case by simp
qed

lemma index_models_heap_bound:
  "length (heap (index_models e w models))
     \<le> length (heap w)
        + length (filter (\<lambda>model. decodable e w (TrimPrefix model (path w @ ''/''))) models)"
proof (induction models arbitrary: w)
  case Nil
  show ?case by simp
next
  case (Cons x xs)
  let ?w1 = "snd (LoadModelData e w (TrimPrefix x (path w @ ''/'')))"
  have same: "(\<lambda>model. decodable e ?w1 (TrimPrefix model (path ?w1 @ ''/'')))
      = (\<lambda>model. decodable e w (TrimPrefix model (path w @ ''/'')))"
    by (simp add: decodable_frame LoadModelData_frame)
  have "length (heap (index_models e ?w1 xs))
      \<le> length (heap ?w1)
         + length (filter (\<lambda>model. decodable e w (TrimPrefix model (path w @ ''/''))) xs)"
    using Cons.IH [of ?w1] by (simp only: same)
  moreover have "length (heap ?w1)
      \<le> length (heap w) + (if decodable e w (TrimPrefix x (path w @ ''/'')) then 1 else 0)"
    by (simp add: LoadModelData_heap)
  ultimately show ?case by (auto split: if_splits)
qed

lemma index_models_same_heap:
  "length (heap (index_models e w models)) = length (heap w) \<Longrightarrow> index_models e w models = w"
proof (induction models arbitrary: w)
  case Nil
  show ?case by simp
next
  case (Cons x xs)
  let ?w1 = "snd (LoadModelData e w (TrimPrefix x (path w @ ''/'')))"
  have "length (heap w) \<le> length (heap ?w1)"
    by (simp add: LoadModelData_heap)
  moreover have "length (heap ?w1) \<le> length (heap (index_models e ?w1 xs))"
    by (rule index_models_heap_mono)
  moreover from Cons.prems have "length (heap (index_models e ?w1 xs)) = length (heap w)"
    by simp
  ultimately have a: "length (heap ?w1) = length (heap w)"
    and b: "length (heap (index_models e ?w1 xs)) = length (heap ?w1)"
    by simp_all
  from a have "?w1 = w" by (rule LoadModelData_same_heap)
  moreover from b have "index_models e ?w1 xs = ?w1" by (rule Cons.IH)
  ultimately show ?case by simp
qed

text \<open>
  C7, as claimed: a load failure of one entry is logged and skipped. It is skipped,
  not logged: the scan of \<^verbatim>\<open>models\<close>, where the metadata of \<^verbatim>\<open>broken\<close> does not
  decode, leaves the log empty.
\<close>

theorem IndexModelDir_failure_not_logged:
  "filepath_Glob env0 (Join [path w0, ''/*'']) = Inr [''models/broken'', ''models/iris'']
   \<and> TrimPrefix ''models/broken'' (path w0 @ ''/'') = ''broken''
   \<and> snd (fst (LoadModelData env0 w0 ''broken'')) = Some (DecodeError ''invalid character'')
   \<and> logged w0 = []
   \<and> logged (snd (IndexModelDir env0 w0)) = []"
proof -
  have glob: "filepath_Glob env0 (Join [path w0, ''/*'']) = Inr [''models/broken'', ''models/iris'']"
    using glob_models by (simp add: env0_def w0_def NewModelRepo_def)
  have trim: "TrimPrefix ''models/broken'' (path w0 @ ''/'') = ''broken''"
    by (simp add: TrimPrefix_def w0_def NewModelRepo_def)
  have failed: "snd (fst (LoadModelData env0 w0 ''broken'')) = Some (DecodeError ''invalid character'')"
    by (simp add: load_broken)
  have before: "logged w0 = []"
    by (simp add: w0_def NewModelRepo_def)
  have after: "logged (snd (IndexModelDir env0 w0)) = []"
    unfolding index_models0 by (simp add: w_cached_def w0_def NewModelRepo_def)
  from glob trim failed before after show ?thesis by blast
qed

text \<open>
  C7, amended. When \<^verbatim>\<open>Glob\<close> succeeds, \<^verbatim>\<open>IndexModelDir\<close> returns no error, whatever
  the entries are, and writes nothing to the log. Every path that \<^verbatim>\<open>Glob\<close> returned is
  tried under the id that trimming the root prefix leaves. If the metadata file of that
  id decodes, to that id, the id is in the cache after the scan, also when other entries
  fail, and if it was not cached before, the scan has added a record. The scan adds at most
  one record for each path whose id has a metadata file that decodes, and none for the
  others; a load that fails leaves the registry as it was.
\<close>

theorem IndexModelDir_skips_failures:
  assumes "filepath_Glob e (Join [path w, ''/*'']) = Inr models"
  shows "fst (IndexModelDir e w) = None
     \<and> logged (snd (IndexModelDir e w)) = logged w
     \<and> (\<forall>model \<in> set models. \<forall>f j.
           files w (Join [Join [path w, TrimPrefix model (path w @ ''/'')],
                          TrimPrefix model (path w @ ''/'') @ ''.json'']) = File f
           \<and> json_Decode_Model e f = Inr j
           \<and> jID j = TrimPrefix model (path w @ ''/'') \<longrightarrow>
           TrimPrefix model (path w @ ''/'') \<in> fst ` set (collection (snd (IndexModelDir e w)))
           \<and> (TrimPrefix model (path w @ ''/'') \<notin> fst ` set (collection w) \<longrightarrow>
                length (heap w) < length (heap (snd (IndexModelDir e w)))))
     \<and> length (heap (snd (IndexModelDir e w)))
         \<le> length (heap w)
            + length (filter (\<lambda>model. decodable e w (TrimPrefix model (path w @ ''/''))) models)
     \<and> (\<forall>w1 mid. snd (fst (LoadModelData e w1 mid)) \<noteq> None \<longrightarrow> snd (LoadModelData e w1 mid) = w1)"
proof -
  have run: "IndexModelDir e w = (None, index_models e w models)"
    using assms by (simp add: IndexModelDir_def)
  have grows: "length (heap w) < length (heap (index_models e w models))"
    if "k \<in> fst ` set (collection (index_models e w models))" and "k \<notin> fst ` set (collection w)"
    for k
  proof (rule ccontr)
    assume "\<not> length (heap w) < length (heap (index_models e w models))"
    with index_models_heap_mono [of w e models]
    have "length (heap (index_models e w models)) = length (heap w)" by simp
    then have "index_models e w models = w" by (rule index_models_same_heap)
    with that show False by simp
  qed
  show ?thesis
    unfolding run
    by (auto simp: index_models_frame LoadModelData_failure_skips index_models_heap_bound
        intro: index_models_caches grows)
qed

theorem IndexModelDir_skips_failures_witness:
  "filepath_Glob env0 (Join [path w0, ''/*'']) = Inr [''models/broken'', ''models/iris'']
   \<and> fst (IndexModelDir env0 w0) = None
   \<and> logged (snd (IndexModelDir env0 w0)) = logged w0
   \<and> ''models/iris'' \<in> set [''models/broken'', ''models/iris'']
   \<and> files w0 ''models/iris/iris.json'' = File ''<iris>''
   \<and> json_Decode_Model env0 ''<iris>'' = Inr iris
   \<and> ''iris'' \<notin> fst ` set (collection w0)
   \<and> ''iris'' \<in> fst ` set (collection (snd (IndexModelDir env0 w0)))
   \<and> filter (\<lambda>model. decodable env0 w0 (TrimPrefix model (path w0 @ ''/'')))
         [''models/broken'', ''models/iris''] = [''models/iris'']
   \<and> length (heap w0) = 0
   \<and> length (heap (snd (IndexModelDir env0 w0))) = 1
   \<and> snd (fst (LoadModelData env0 w0 ''broken'')) \<noteq> None
   \<and> snd (LoadModelData env0 w0 ''broken'') = w0
   \<and> collection (snd (IndexModelDir env0 w0)) = [(''iris'', 0)]"
proof -
  have glob: "filepath_Glob env0 (Join [path w0, ''/*'']) = Inr [''models/broken'', ''models/iris'']"
    using glob_models by (simp add: env0_def w0_def NewModelRepo_def)
  have trim: "TrimPrefix ''models/iris'' (path w0 @ ''/'') = ''iris''"
    and trim': "TrimPrefix ''models/broken'' (path w0 @ ''/'') = ''broken''"
    by (simp_all add: TrimPrefix_def w0_def NewModelRepo_def)
  have ondisk: "files w0 ''models/iris/iris.json'' = File ''<iris>''"
    by (simp add: w0_def NewModelRepo_def disk0_def)
  have meta: "files w0 (Join [Join [path w0, ''iris''], ''iris'' @ ''.json'']) = File ''<iris>''"
    using path_iris by (simp add: w0_def NewModelRepo_def disk0_def)
  have meta': "files w0 (Join [Join [path w0, ''broken''], ''broken'' @ ''.json'']) = File ''<broken>''"
    using path_broken by (simp add: w0_def NewModelRepo_def disk0_def)
  have dec: "json_Decode_Model env0 ''<iris>'' = Inr iris"
    and dec': "json_Decode_Model env0 ''<broken>'' = Inl ''invalid character''"
    by (simp_all add: env0_def)
  have same: "jID iris = ''iris''"
    by (simp add: iris_def)
  have empty: "''iris'' \<notin> fst ` set (collection w0)" "length (heap w0) = 0"
    by (simp_all add: w0_def NewModelRepo_def)
  have valid: "decodable env0 w0 ''iris''"
    and corrupt: "\<not> decodable env0 w0 ''broken''"
    using meta meta' dec dec' by (simp_all add: decodable_def)
  have one_valid: "filter (\<lambda>model. decodable env0 w0 (TrimPrefix model (path w0 @ ''/'')))
         [''models/broken'', ''models/iris''] = [''models/iris'']"
    by (simp add: trim trim' valid corrupt)
  have failed: "snd (fst (LoadModelData env0 w0 ''broken'')) \<noteq> None"
    by (simp add: load_broken)
  note scan = IndexModelDir_skips_failures [OF glob]
  from scan have noerr: "fst (IndexModelDir env0 w0) = None"
    and nolog: "logged (snd (IndexModelDir env0 w0)) = logged w0"
    by blast+
  from scan have "\<forall>model \<in> set [''models/broken'', ''models/iris'']. \<forall>f j.
           files w0 (Join [Join [path w0, TrimPrefix model (path w0 @ ''/'')],
                           TrimPrefix model (path w0 @ ''/'') @ ''.json'']) = File f
           \<and> json_Decode_Model env0 f = Inr j
           \<and> jID j = TrimPrefix model (path w0 @ ''/'') \<longrightarrow>
           TrimPrefix model (path w0 @ ''/'') \<in> fst ` set (collection (snd (IndexModelDir env0 w0)))
           \<and> (TrimPrefix model (path w0 @ ''/'') \<notin> fst ` set (collection w0) \<longrightarrow>
                length (heap w0) < length (heap (snd (IndexModelDir env0 w0))))"
    by blast
  then have inst: "files w0 (Join [Join [path w0, TrimPrefix ''models/iris'' (path w0 @ ''/'')],
                           TrimPrefix ''models/iris'' (path w0 @ ''/'') @ ''.json'']) = File ''<iris>''
           \<and> json_Decode_Model env0 ''<iris>'' = Inr iris
           \<and> jID iris = TrimPrefix ''models/iris'' (path w0 @ ''/'') \<longrightarrow>
           TrimPrefix ''models/iris'' (path w0 @ ''/'') \<in> fst ` set (collection (snd (IndexModelDir env0 w0)))
           \<and> (TrimPrefix ''models/iris'' (path w0 @ ''/'') \<notin> fst ` set (collection w0) \<longrightarrow>
                length (heap w0) < length (heap (snd (IndexModelDir env0 w0))))"
    by simp
  from inst [unfolded trim] meta dec same
  have "''iris'' \<in> fst ` set (collection (snd (IndexModelDir env0 w0)))
      \<and> (''iris'' \<notin> fst ` set (collection w0) \<longrightarrow>
           length (heap w0) < length (heap (snd (IndexModelDir env0 w0))))"
    by blast
  with empty have cached: "''iris'' \<in> fst ` set (collection (snd (IndexModelDir env0 w0)))"
    and lower: "length (heap w0) < length (heap (snd (IndexModelDir env0 w0)))"
    by blast+
  from scan have "length (heap (snd (IndexModelDir env0 w0)))
         \<le> length (heap w0)
            + length (filter (\<lambda>model. decodable env0 w0 (TrimPrefix model (path w0 @ ''/'')))
                 [''models/broken'', ''models/iris''])"
    by blast
  then have upper: "length (heap (snd (IndexModelDir env0 w0))) \<le> length (heap w0) + 1"
    by (simp only: one_valid list.size One_nat_def add_0_right add_Suc_right)
  from lower upper empty(2) have one: "length (heap (snd (IndexModelDir env0 w0))) = 1"
    by linarith
  from scan failed have skipped: "snd (LoadModelData env0 w0 ''broken'') = w0"
    by blast
  have coll: "collection (snd (IndexModelDir env0 w0)) = [(''iris'', 0)]"
    by (simp add: index_models0 w_cached_def)
  from glob noerr nolog ondisk dec empty cached one_valid one failed skipped coll
  show ?thesis by simp
qed

subsection \<open>fitModel\<close>

text \<open>
  C5. A fit job for a record that is untrained and not in the cache, whose temp file
  could be written. If the fit process exits 0 and has written a metadata file that
  decodes, with the id of the model, the cache afterwards holds a record for that id, a
  new one, with \<^verbatim>\<open>Trained\<close> set and the score of the file, and \<^verbatim>\<open>All\<close> lists it. If the
  process exits with an error and there is no metadata file, the record is still
  untrained, the cache is as it was and \<^verbatim>\<open>All\<close> does not list the record.
\<close>

theorem fitModel_outcome:
  assumes "a < length (heap w)"
    and "\<not> Trained (heap w ! a)"
    and "map_of (collection w) (ID (heap w ! a)) = None"
    and "a \<notin> set (All_models w)"
    and "ioutil_TempFile e (ID (heap w ! a)) = Inr f"
    and "json_Encode_Req e d = Inr buf"
    and "cmd_Run e (fit_Command (heap w ! a) f) ((files w)(f := File buf)) = (err, fs)"
  shows "(err = None
          \<and> fs (Join [Join [path w, ID (heap w ! a)], ID (heap w ! a) @ ''.json'']) = File bs
          \<and> json_Decode_Model e bs = Inr j \<and> jID j = ID (heap w ! a) \<longrightarrow>
            map_of (collection (fitModel e w a d)) (ID (heap w ! a)) = Some (length (heap w))
            \<and> length (heap w) \<in> set (All_models (fitModel e w a d))
            \<and> Trained (heap (fitModel e w a d) ! length (heap w))
            \<and> Score (Performance (heap (fitModel e w a d) ! length (heap w)))
                = Score (jPerformance j))
       \<and> (err \<noteq> None
          \<and> fs (Join [Join [path w, ID (heap w ! a)], ID (heap w ! a) @ ''.json'']) = ENOENT \<longrightarrow>
            \<not> Trained (heap (fitModel e w a d) ! a)
            \<and> collection (fitModel e w a d) = collection w
            \<and> a \<notin> set (All_models (fitModel e w a d)))"
proof (intro conjI impI)
  assume ok: "err = None
      \<and> fs (Join [Join [path w, ID (heap w ! a)], ID (heap w ! a) @ ''.json'']) = File bs
      \<and> json_Decode_Model e bs = Inr j \<and> jID j = ID (heap w ! a)"
  have run: "fitModel e w a d =
      os_Remove (log_Info (''finished fitting model '' @ ID (heap w ! a))
        (snd (LoadModelData e (log_Info (''started fitting model '' @ ID (heap w ! a)) w\<lparr>files := fs\<rparr>)
           (ID (heap w ! a))))) f"
    using assms ok
    by (simp add: fitModel_def Let_def log_Info_def LoadModelData_def new_Model_def Add_def
        split: prod.splits)
  show "map_of (collection (fitModel e w a d)) (ID (heap w ! a)) = Some (length (heap w))"
    unfolding run using assms ok
    by (simp add: os_Remove_def log_Info_def LoadModelData_def new_Model_def Add_def
        decoded_def update_conv')
  show "length (heap w) \<in> set (All_models (fitModel e w a d))"
    unfolding run using assms ok
    by (simp add: os_Remove_def log_Info_def LoadModelData_def new_Model_def Add_def
        decoded_def All_models_def update_conv' image_iff)
       (metis map_of_SomeD snd_conv update_conv' fun_upd_same)
  show "Trained (heap (fitModel e w a d) ! length (heap w))"
    unfolding run using assms ok
    by (simp add: os_Remove_def log_Info_def LoadModelData_def new_Model_def Add_def decoded_def)
  show "Score (Performance (heap (fitModel e w a d) ! length (heap w))) = Score (jPerformance j)"
    unfolding run using assms ok
    by (simp add: os_Remove_def log_Info_def LoadModelData_def new_Model_def Add_def decoded_def)
next
  assume bad: "err \<noteq> None
      \<and> fs (Join [Join [path w, ID (heap w ! a)], ID (heap w ! a) @ ''.json'']) = ENOENT"
  then obtain msg stderr where err: "err = Some (msg, stderr)" by (cases err) auto
  have coll: "collection (fitModel e w a d) = collection w"
    and hp: "heap (fitModel e w a d) = heap w"
    using assms bad err
    by (simp_all add: fitModel_def Let_def log_Info_def log_Error_def LoadModelData_def os_Remove_def)
  show "\<not> Trained (heap (fitModel e w a d) ! a)" using hp assms by simp
  show "collection (fitModel e w a d) = collection w" by (rule coll)
  show "a \<notin> set (All_models (fitModel e w a d))" using coll assms by (simp add: All_models_def)
qed

theorem fitModel_outcome_witness:
  "0 < length (heap w_new) \<and> \<not> Trained (heap w_new ! 0)
   \<and> map_of (collection w_new) ''fresh'' = None \<and> 0 \<notin> set (All_models w_new)
   \<and> fst (cmd_Run env_fit_ok (fit_Command (heap w_new ! 0) ''/tmp/fresh1'')
            ((files w_new)(''/tmp/fresh1'' := File ''<request>''))) = None
   \<and> map_of (collection (fitModel env_fit_ok w_new 0 request0)) ''fresh'' = Some 1
   \<and> 1 \<in> set (All_models (fitModel env_fit_ok w_new 0 request0))
   \<and> Trained (heap (fitModel env_fit_ok w_new 0 request0) ! 1)
   \<and> Score (Performance (heap (fitModel env_fit_ok w_new 0 request0) ! 1)) = 0x3FE8000000000000
   \<and> fst (cmd_Run env_fit_fail (fit_Command (heap w_new ! 0) ''/tmp/fresh1'')
            ((files w_new)(''/tmp/fresh1'' := File ''<request>''))) \<noteq> None
   \<and> \<not> Trained (heap (fitModel env_fit_fail w_new 0 request0) ! 0)
   \<and> collection (fitModel env_fit_fail w_new 0 request0) = []
   \<and> All_models (fitModel env_fit_fail w_new 0 request0) = []"
proof -
  have valid: "0 < length (heap w_new)"
    and untrained: "\<not> Trained (heap w_new ! 0)"
    and absent: "map_of (collection w_new) (ID (heap w_new ! 0)) = None"
    and unlisted: "0 \<notin> set (All_models w_new)"
    and mid: "ID (heap w_new ! 0) = ''fresh''"
    and root: "path w_new = ''models''"
    and len: "length (heap w_new) = 1"
    and coll: "collection w_new = []"
    by (simp_all add: w_new_def w0_def NewModelRepo_def Model0_def All_models_def)
  have tmp_ok: "ioutil_TempFile env_fit_ok (ID (heap w_new ! 0)) = Inr ''/tmp/fresh1''"
    and enc_ok: "json_Encode_Req env_fit_ok request0 = Inr ''<request>''"
    and run_ok: "cmd_Run env_fit_ok (fit_Command (heap w_new ! 0) ''/tmp/fresh1'')
                   ((files w_new)(''/tmp/fresh1'' := File ''<request>''))
                 = (None, (files w_new)(''/tmp/fresh1'' := File ''<request>'',
                                        ''models/fresh/fresh.json'' := File ''<fresh>''))"
    and dec_ok: "json_Decode_Model env_fit_ok ''<fresh>'' = Inr fresh"
    by (simp_all add: env_fit_ok_def env0_def mid)
  have tmp_fail: "ioutil_TempFile env_fit_fail (ID (heap w_new ! 0)) = Inr ''/tmp/fresh1''"
    and enc_fail: "json_Encode_Req env_fit_fail request0 = Inr ''<request>''"
    and run_fail: "cmd_Run env_fit_fail (fit_Command (heap w_new ! 0) ''/tmp/fresh1'')
                   ((files w_new)(''/tmp/fresh1'' := File ''<request>''))
                 = (Some (''exit status 1'', ''Traceback''),
                    (files w_new)(''/tmp/fresh1'' := File ''<request>''))"
    by (simp_all add: env_fit_fail_def env0_def mid)
  have written: "((files w_new)(''/tmp/fresh1'' := File ''<request>'',
                                ''models/fresh/fresh.json'' := File ''<fresh>''))
                   (Join [Join [path w_new, ID (heap w_new ! 0)], ID (heap w_new ! 0) @ ''.json''])
                 = File ''<fresh>''"
    using meta_fresh by (simp add: mid root)
  have missing: "((files w_new)(''/tmp/fresh1'' := File ''<request>''))
                   (Join [Join [path w_new, ID (heap w_new ! 0)], ID (heap w_new ! 0) @ ''.json''])
                 = ENOENT"
    using meta_fresh by (simp add: mid root w_new_def w0_def NewModelRepo_def disk0_def)
  have same: "jID fresh = ID (heap w_new ! 0)"
    and score: "Score (jPerformance fresh) = 0x3FE8000000000000"
    by (simp_all add: fresh_def mid)
  from fitModel_outcome [OF valid untrained absent unlisted tmp_ok enc_ok run_ok,
      of "''<fresh>''" fresh] written dec_ok same
  have good: "map_of (collection (fitModel env_fit_ok w_new 0 request0)) ''fresh'' = Some 1
     \<and> 1 \<in> set (All_models (fitModel env_fit_ok w_new 0 request0))
     \<and> Trained (heap (fitModel env_fit_ok w_new 0 request0) ! 1)
     \<and> Score (Performance (heap (fitModel env_fit_ok w_new 0 request0) ! 1)) = 0x3FE8000000000000"
    by (simp add: mid len score)
  from fitModel_outcome [OF valid untrained absent unlisted tmp_fail enc_fail run_fail] missing
  have bad: "\<not> Trained (heap (fitModel env_fit_fail w_new 0 request0) ! 0)
     \<and> collection (fitModel env_fit_fail w_new 0 request0) = []"
    by (simp add: coll)
  then have "All_models (fitModel env_fit_fail w_new 0 request0) = []"
    by (simp add: All_models_def)
  with valid untrained absent unlisted run_ok run_fail good bad show ?thesis
    by (simp add: mid)
qed

subsection \<open>Predict and Stop\<close>

text \<open>
  C2. Claimed: on a model whose worker is stopped or dead, \<^verbatim>\<open>Predict\<close> fails with a
  condition returned to the caller, and after the worker process has exited a call fails
  rather than blocking or crashing. After the process of \<^verbatim>\<open>iris\<close> has exited, the
  supervisor has closed the request channel; \<^verbatim>\<open>m.req\<close> is not \<^verbatim>\<open>nil\<close>, so the one
  guard of \<^verbatim>\<open>Predict\<close> lets the call through, and the send on the closed channel
  panics.
\<close>

theorem Predict_after_exit_panics:
  "supervisor_end w_alive 0 0 None = (Returns (), w_exited)
   \<and> Running (heap w_exited ! 0) = False
   \<and> req (heap w_exited ! 0) = Some 0
   \<and> chans w_exited ! 0 = Closed
   \<and> Predict env0 w_exited (Some 0) request0 = (Panics ''send on closed channel'', w_exited)"
  using exit_iris
  by (simp add: Predict_def chan_send_def env0_def w_exited_def)

text \<open>
  The guard that the closed channel gets past: a model whose request channel is \<^verbatim>\<open>nil\<close>
  has one error logged and the zero \<^verbatim>\<open>Prediction\<close> returned.
\<close>

lemma Predict_nil_chan:
  assumes "req (heap w ! a) = None"
  shows "\<exists>msg. Predict e w (Some a) r = (Returns Prediction0, log_Error msg w)"
  using assms by (auto simp: Predict_def split: sum.splits)

text \<open>
  C8, as claimed: \<^verbatim>\<open>Stop\<close> on a model whose worker is already stopped is a no-op that
  returns no error. After the process of \<^verbatim>\<open>iris\<close> has exited, \<^verbatim>\<open>m.cmd\<close> is still
  set, and \<^verbatim>\<open>Stop\<close> returns the error of \<^verbatim>\<open>Signal\<close>.
\<close>

theorem Stop_exited_returns_error:
  "Running (heap w_exited ! 0) = False
   \<and> Process (cmds w_exited ! 0) = Finished
   \<and> Stop w_exited (Some 0) = (Returns (Some ErrProcessDone), w_exited)"
  by (simp add: Stop_def w_exited_def predict_cmd_def)

text \<open>
  C8, amended. \<^verbatim>\<open>Stop\<close> on a model that was never started is a no-op that returns no
  error. On a live process it delivers one interrupt signal, returns no error and changes
  nothing else. On a process that has exited it changes nothing and returns the error of
  \<^verbatim>\<open>Signal\<close>. \<^verbatim>\<open>Stop\<close> never writes to a record, so \<^verbatim>\<open>Running\<close> is as it was; it is
  the end of the supervisor goroutine that clears it.
\<close>

theorem Stop_interrupts:
  "(cmd (heap w ! a) = None \<longrightarrow> Stop w (Some a) = (Returns None, w))
   \<and> (\<forall>c. cmd (heap w ! a) = Some c \<and> Process (cmds w ! c) = Alive \<longrightarrow>
         Stop w (Some a) = (Returns None, w\<lparr>signals := signals w @ [(c, Interrupt)]\<rparr>))
   \<and> (\<forall>c. cmd (heap w ! a) = Some c \<and> Process (cmds w ! c) = Finished \<longrightarrow>
         Stop w (Some a) = (Returns (Some ErrProcessDone), w))
   \<and> heap (snd (Stop w p)) = heap w
   \<and> cmds (snd (Stop w p)) = cmds w
   \<and> (a < length (heap w) \<longrightarrow> \<not> Running (heap (snd (supervisor_end w a k err)) ! a))"
  by (auto simp: Stop_def supervisor_end_def chan_close_def update_Model_def log_Info_def
      log_Error_def Let_def split: option.splits process.splits chan_state.splits)

theorem Stop_interrupts_witness:
  "cmd (heap w_cached ! 0) = None
   \<and> Stop w_cached (Some 0) = (Returns None, w_cached)
   \<and> cmd (heap w_alive ! 0) = Some 0 \<and> Process (cmds w_alive ! 0) = Alive
   \<and> Running (heap w_alive ! 0)
   \<and> Stop w_alive (Some 0) = (Returns None, w_alive\<lparr>signals := signals w_alive @ [(0, Interrupt)]\<rparr>)
   \<and> Running (heap (snd (Stop w_alive (Some 0))) ! 0)
   \<and> 0 < length (heap w_alive)
   \<and> \<not> Running (heap (snd (supervisor_end w_alive 0 0 None)) ! 0)"
proof -
  have never: "cmd (heap w_cached ! 0) = None"
    by (simp add: w_cached_def iris_loaded_def)
  have alive: "cmd (heap w_alive ! 0) = Some 0 \<and> Process (cmds w_alive ! 0) = Alive"
    by (simp add: w_alive_def predict_cmd_def)
  have running: "Running (heap w_alive ! 0)"
    by (simp add: w_alive_def)
  have valid: "0 < length (heap w_alive)"
    by (simp add: w_alive_def)
  from Stop_interrupts [of w_cached 0] never
  have 1: "Stop w_cached (Some 0) = (Returns None, w_cached)"
    by blast
  from Stop_interrupts [of w_alive 0 "Some 0" 0 None] alive valid
  have 2: "Stop w_alive (Some 0) = (Returns None, w_alive\<lparr>signals := signals w_alive @ [(0, Interrupt)]\<rparr>)"
    and 3: "heap (snd (Stop w_alive (Some 0))) = heap w_alive"
    and 4: "\<not> Running (heap (snd (supervisor_end w_alive 0 0 None)) ! 0)"
    by blast+
  from never alive running valid 1 2 3 4 show ?thesis by simp
qed

subsection \<open>startModel and the bridge\<close>

text \<open>
  C9. \<^verbatim>\<open>startModel\<close> on a record gives it two new open channels, which no channel
  before was, and sets \<^verbatim>\<open>Running\<close>. When the socket can be created it attaches the
  command \<^verbatim>\<open>python3 - <socket path> <dir>/<id>.pkl\<close> and starts the supervisor
  goroutine, which runs it. The socket path is \<^verbatim>\<open>ipc:///tmp/<id>\<close>, which no other id
  gives.
\<close>

theorem startModel_launches:
  assumes "a < length (heap w)" and "startModel e w a = (err, w')"
  shows "req (heap w' ! a) = Some (length (chans w))
     \<and> rep (heap w' ! a) = Some (Suc (length (chans w)))
     \<and> chans w' = chans w @ [Open, Open]
     \<and> Running (heap w' ! a)
     \<and> (\<forall>sock. zmq_NewSocket e = Inr sock \<longrightarrow>
          cmd (heap w' ! a) = Some (length (cmds w))
          \<and> cmds w' = cmds w @ [\<lparr>Args = [''python3'', ''-'', socketPath (ID (heap w ! a)),
                                         Join [dir (heap w ! a), ID (heap w ! a) @ ''.pkl'']],
                                 Stdin = PredictPy, Process = NotStarted\<rparr>]
          \<and> goroutines w' = goroutines w @ Supervisor a (length (cmds w))
                                # (if err = None then [Bridge a sock] else [])
          \<and> Process (cmds (supervisor_begin w' a (length (cmds w)) True) ! length (cmds w)) = Alive
          \<and> Args (cmds (supervisor_begin w' a (length (cmds w)) True) ! length (cmds w))
              = [''python3'', ''-'', socketPath (ID (heap w ! a)),
                 Join [dir (heap w ! a), ID (heap w ! a) @ ''.pkl'']])
     \<and> (\<forall>mid. socketPath mid = socketPath (ID (heap w ! a)) \<longrightarrow> mid = ID (heap w ! a))"
  using assms
  by (auto simp: startModel_def make_chan_def update_Model_def exec_Command_def go_def Let_def
      supervisor_begin_def log_Info_def socketPath_def
      split: sum.splits option.splits)

theorem startModel_launches_witness:
  "0 < length (heap w_cached) \<and> zmq_NewSocket env0 = Inr 0
   \<and> fst (startModel env0 w_cached 0) = None
   \<and> req (heap (snd (startModel env0 w_cached 0)) ! 0) = Some 0
   \<and> rep (heap (snd (startModel env0 w_cached 0)) ! 0) = Some 1
   \<and> chans (snd (startModel env0 w_cached 0)) = [Open, Open]
   \<and> Running (heap (snd (startModel env0 w_cached 0)) ! 0)
   \<and> cmd (heap (snd (startModel env0 w_cached 0)) ! 0) = Some 0
   \<and> cmds (snd (startModel env0 w_cached 0))
       = [\<lparr>Args = [''python3'', ''-'', ''ipc:///tmp/iris'', ''models/iris/iris.pkl''],
           Stdin = PredictPy, Process = NotStarted\<rparr>]
   \<and> goroutines (snd (startModel env0 w_cached 0)) = [Supervisor 0 0, Bridge 0 0]"
proof -
  have valid: "0 < length (heap w_cached)"
    by (simp add: w_cached_def)
  have sock: "zmq_NewSocket env0 = Inr 0"
    by (simp add: env0_def)
  have before: "chans w_cached = []" "cmds w_cached = []" "goroutines w_cached = []"
    "ID (heap w_cached ! 0) = ''iris''" "dir (heap w_cached ! 0) = ''models/iris''"
    by (simp_all add: w_cached_def w0_def NewModelRepo_def iris_loaded_def)
  have run: "startModel env0 w_cached 0
      = (fst (startModel env0 w_cached 0), snd (startModel env0 w_cached 0))"
    by simp
  have ok: "fst (startModel env0 w_cached 0) = None"
    by (simp add: start_cached)
  from startModel_launches [OF valid run] sock ok valid show ?thesis
    by (simp add: before pkl_iris socketPath_def)
qed

lemma protocol_simps:
  "protocol [] = []"
  "protocol (IpcSend q # evs) = IpcSend q # protocol evs"
  "protocol (IpcRecv p # evs) = IpcRecv p # protocol evs"
  "protocol (ChanReply p # evs) = ChanReply p # protocol evs"
  "protocol (ChanClose # evs) = ChanClose # protocol evs"
  "protocol (LogError m # evs) = protocol evs"
  "protocol (xs @ ys) = protocol xs @ protocol ys"
  "protocol (log_if what err) = []"
  by (simp_all add: protocol_def log_if_def split: option.splits)

lemma bridge_trace:
  "protocol (fst (bridge z mid s reqs)) = served (answered z s reqs) @ last_step z s reqs"
  by (induction reqs arbitrary: s)
     (auto simp: protocol_simps and_then_def split: option.splits)

lemma bridge_done:
  "snd (bridge z mid s reqs) = (length (answered z s reqs) = length reqs)"
  by (induction reqs arbitrary: s) (auto simp: and_then_def split: option.splits)

lemma answered_in_order:
  "map fst (answered z s reqs) = take (length (answered z s reqs)) reqs"
  by (induction reqs arbitrary: s) (auto split: option.splits)

lemma answered_length: "length (answered z s reqs) \<le> length reqs"
  by (induction reqs arbitrary: s) (auto split: option.splits)

lemma last_step_cases:
  "(length (answered z s reqs) = length reqs \<longrightarrow> last_step z s reqs = [ChanClose])
   \<and> (length (answered z s reqs) < length reqs \<longrightarrow>
        last_step z s reqs = [] \<or> last_step z s reqs = [IpcSend (reqs ! length (answered z s reqs))])"
  by (induction reqs arbitrary: s) (auto split: option.splits)

lemma answered_all:
  assumes "\<forall>s b. SendBytes z s b \<noteq> None" and "\<forall>s. RecvBytes z s \<noteq> None"
  shows "length (answered z s reqs) = length reqs"
proof (induction reqs arbitrary: s)
  case Nil
  show ?case by simp
next
  case (Cons q qs)
  from assms(1) have "SendBytes z s q \<noteq> None" by blast
  then obtain s1 err1 where snd1: "SendBytes z s q = Some (s1, err1)"
    by (cases "SendBytes z s q") auto
  from assms(2) have "RecvBytes z s1 \<noteq> None" by blast
  then obtain s2 p err2 where rcv: "RecvBytes z s1 = Some (s2, p, err2)"
    by (cases "RecvBytes z s1") auto
  show ?case using snd1 rcv Cons.IH [of s2] by simp
qed

text \<open>
  C6. The bridging goroutine handles the requests in the order of the channel, and for
  each of them it does one send, then one receive, then one write of what it received to
  the response channel: what it does on the socket and the channels is exactly \<open>served\<close>
  on the requests paired with the replies that the socket gives for them, in order,
  followed by \<open>last_step\<close>. When every request was answered the requests served are all
  of them, the last step is the close of the response channel and the goroutine has come
  to its end. Otherwise it is stuck within the first request that the socket does not
  answer, with every request before it served and none after it begun. With a socket
  whose calls always return it comes to its end.
\<close>

theorem bridge_fifo:
  "protocol (fst (bridge z mid s reqs)) = served (answered z s reqs) @ last_step z s reqs
   \<and> map fst (answered z s reqs) = take (length (answered z s reqs)) reqs
   \<and> snd (bridge z mid s reqs) = (length (answered z s reqs) = length reqs)
   \<and> (snd (bridge z mid s reqs) \<longrightarrow>
        map fst (answered z s reqs) = reqs \<and> last_step z s reqs = [ChanClose])
   \<and> (\<not> snd (bridge z mid s reqs) \<longrightarrow>
        length (answered z s reqs) < length reqs
        \<and> (last_step z s reqs = []
           \<or> last_step z s reqs = [IpcSend (reqs ! length (answered z s reqs))]))
   \<and> ((\<forall>s b. SendBytes z s b \<noteq> None) \<and> (\<forall>s. RecvBytes z s \<noteq> None) \<longrightarrow>
        snd (bridge z mid s reqs))"
proof (intro conjI impI)
  show "protocol (fst (bridge z mid s reqs)) = served (answered z s reqs) @ last_step z s reqs"
    by (rule bridge_trace)
  show ordered: "map fst (answered z s reqs) = take (length (answered z s reqs)) reqs"
    by (rule answered_in_order)
  show "snd (bridge z mid s reqs) = (length (answered z s reqs) = length reqs)"
    by (rule bridge_done)
  show "map fst (answered z s reqs) = reqs" if "snd (bridge z mid s reqs)"
    using that ordered by (simp add: bridge_done)
  show "last_step z s reqs = [ChanClose]" if "snd (bridge z mid s reqs)"
    using that last_step_cases [of z s reqs] by (simp add: bridge_done)
  show "length (answered z s reqs) < length reqs" if "\<not> snd (bridge z mid s reqs)"
    using that answered_length [of z s reqs] by (simp add: bridge_done)
  show "last_step z s reqs = []
      \<or> last_step z s reqs = [IpcSend (reqs ! length (answered z s reqs))]"
    if "\<not> snd (bridge z mid s reqs)"
  proof -
    from that have "length (answered z s reqs) < length reqs"
      using answered_length [of z s reqs] by (simp add: bridge_done)
    with last_step_cases [of z s reqs] show ?thesis by blast
  qed
  show "snd (bridge z mid s reqs)"
    if "(\<forall>s b. SendBytes z s b \<noteq> None) \<and> (\<forall>s. RecvBytes z s \<noteq> None)"
    using that answered_all [of z s reqs] by (simp add: bridge_done)
qed

lemma bridge_echo: "bridge echo ''iris'' [] [''a'', ''b'']
    = ([IpcSend ''a'', IpcRecv ''a'', ChanReply ''a'',
        IpcSend ''b'', IpcRecv ''b'', ChanReply ''b'', ChanClose], True)"
  by (simp add: echo_def and_then_def log_if_def)

theorem bridge_fifo_witness:
  "(\<forall>s b. SendBytes echo s b \<noteq> None) \<and> (\<forall>s. RecvBytes echo s \<noteq> None)
   \<and> answered echo [] [''a'', ''b''] = [(''a'', ''a''), (''b'', ''b'')]
   \<and> snd (bridge echo ''iris'' [] [''a'', ''b''])
   \<and> protocol (fst (bridge echo ''iris'' [] [''a'', ''b'']))
       = [IpcSend ''a'', IpcRecv ''a'', ChanReply ''a'',
          IpcSend ''b'', IpcRecv ''b'', ChanReply ''b'', ChanClose]
   \<and> \<not> snd (bridge mute ''iris'' [] [''a'', ''b''])
   \<and> answered mute [] [''a'', ''b''] = []
   \<and> protocol (fst (bridge mute ''iris'' [] [''a'', ''b''])) = [IpcSend ''a'']"
proof -
  have live: "(\<forall>s b. SendBytes echo s b \<noteq> None) \<and> (\<forall>s. RecvBytes echo s \<noteq> None)"
    by (simp add: echo_def)
  have echoed: "answered echo [] [''a'', ''b''] = [(''a'', ''a''), (''b'', ''b'')]"
    by (simp add: echo_def)
  have silent: "answered mute [] [''a'', ''b''] = []"
    by (simp add: mute_def)
  have stuck: "\<not> snd (bridge mute ''iris'' [] [''a'', ''b''])"
    by (simp add: mute_def and_then_def)
  have pending: "last_step mute [] [''a'', ''b''] = [IpcSend ''a'']"
    by (simp add: mute_def)
  note e = bridge_fifo [of echo "''iris''" "[]" "[''a'', ''b'']"]
  from e live have fin: "snd (bridge echo ''iris'' [] [''a'', ''b''])"
    by blast
  with e have closes: "last_step echo [] [''a'', ''b''] = [ChanClose]"
    by blast
  from e have "protocol (fst (bridge echo ''iris'' [] [''a'', ''b'']))
      = served (answered echo [] [''a'', ''b'']) @ last_step echo [] [''a'', ''b'']"
    by blast
  then have t1: "protocol (fst (bridge echo ''iris'' [] [''a'', ''b'']))
       = [IpcSend ''a'', IpcRecv ''a'', ChanReply ''a'',
          IpcSend ''b'', IpcRecv ''b'', ChanReply ''b'', ChanClose]"
    by (simp only: echoed closes served.simps append.simps)
  note m = bridge_fifo [of mute "''iris''" "[]" "[''a'', ''b'']"]
  from m have "protocol (fst (bridge mute ''iris'' [] [''a'', ''b'']))
      = served (answered mute [] [''a'', ''b'']) @ last_step mute [] [''a'', ''b'']"
    by blast
  then have t2: "protocol (fst (bridge mute ''iris'' [] [''a'', ''b''])) = [IpcSend ''a'']"
    by (simp only: silent pending served.simps append.simps)
  from live echoed fin t1 stuck silent t2 show ?thesis by blast
qed

end
